theory Spec2Isabelle
  imports Main "HOL-Library.Sublist" "HOL-Library.Log_Nat"
begin

section \<open>Flamegraph analyzer: the analysis pipeline of \<^verbatim>\<open>ai-flamegraph-analyzer.py\<close>\<close>

text \<open>
  The script turns the text printed by \<^verbatim>\<open>go tool pprof -top\<close> into records
  (\<^verbatim>\<open>parse_top_output\<close>), classifies them (\<^verbatim>\<open>identify_hotspots\<close>), groups the
  findings into recommendations (\<^verbatim>\<open>generate_recommendations\<close>) and writes a
  markdown report (\<^verbatim>\<open>generate_report\<close>).

  Conventions of the embedding.
  \<^item> A Python \<^verbatim>\<open>str\<close> is a \<^typ>\<open>string\<close>. The characters are taken to be ASCII, which
    is what pprof prints: white space is the ASCII white space of \<^verbatim>\<open>str.isspace\<close>,
    \<^verbatim>\<open>lower\<close> maps \<^verbatim>\<open>A-Z\<close> only, digits are \<^verbatim>\<open>0-9\<close>. The non-ASCII glyphs of the
    report are kept as the byte sequences of the source file.
  \<^item> A Python \<^verbatim>\<open>float\<close> is a \<^verbatim>\<open>pyfloat\<close>: a rational number that binary64 represents,
    negative zero, the two infinities or NaN. \<^verbatim>\<open>float(s)\<close> and \<^verbatim>\<open>+\<close> round to the
    nearest binary64 value, ties to even.
  \<^item> An exception is a value \<^verbatim>\<open>Inl e\<close> of the result type; \<^verbatim>\<open>try/except\<close> is a case
    distinction on it.
\<close>

subsection \<open>Strings\<close>

text \<open>\<^verbatim>\<open>str.isspace\<close> on one ASCII character: tab, line feed, vertical tab, form feed,
  carriage return, the four separators \<^verbatim>\<open>0x1c-0x1f\<close> and the blank.\<close>

definition is_space :: "char \<Rightarrow> bool" where
  "is_space c = (let n = of_char c :: nat in (9 \<le> n \<and> n \<le> 13) \<or> (28 \<le> n \<and> n \<le> 32))"

definition is_digit :: "char \<Rightarrow> bool" where
  "is_digit c = (let n = of_char c :: nat in 48 \<le> n \<and> n \<le> 57)"

definition digit_val :: "char \<Rightarrow> nat" where
  "digit_val c = of_char c - 48"

definition lower_char :: "char \<Rightarrow> char" where
  "lower_char c = (let n = of_char c :: nat in if 65 \<le> n \<and> n \<le> 90 then char_of (n + 32) else c)"

text \<open>\<^verbatim>\<open>s.lower()\<close>\<close>

definition str_lower :: "string \<Rightarrow> string" where
  "str_lower s = map lower_char s"

text \<open>\<^verbatim>\<open>sub in s\<close>\<close>

fun str_contains :: "string \<Rightarrow> string \<Rightarrow> bool" where
  "str_contains sub [] = (sub = [])"
| "str_contains sub (c # cs) = (prefix sub (c # cs) \<or> str_contains sub cs)"

text \<open>\<^verbatim>\<open>s.split('\n')\<close>: the pieces between line feeds, empty pieces kept.\<close>

fun split_on :: "char \<Rightarrow> string \<Rightarrow> string \<Rightarrow> string list" where
  "split_on sep cur [] = [cur]"
| "split_on sep cur (c # cs) =
     (if c = sep then cur # split_on sep [] cs else split_on sep (cur @ [c]) cs)"

definition split_lines :: "string \<Rightarrow> string list" where
  "split_lines s = split_on (CHR 0x0A) [] s"

text \<open>\<^verbatim>\<open>s.split()\<close>: the maximal runs of characters that are not white space.\<close>

fun split_run :: "string \<Rightarrow> string \<Rightarrow> string list" where
  "split_run cur [] = (if cur = [] then [] else [cur])"
| "split_run cur (c # cs) =
     (if is_space c then (if cur = [] then split_run [] cs else cur # split_run [] cs)
      else split_run (cur @ [c]) cs)"

definition str_split :: "string \<Rightarrow> string list" where
  "str_split s = split_run [] s"

text \<open>\<^verbatim>\<open>s.strip()\<close> and \<^verbatim>\<open>s.rstrip('%')\<close>\<close>

definition str_strip :: "string \<Rightarrow> string" where
  "str_strip s = rev (dropWhile is_space (rev (dropWhile is_space s)))"

definition str_rstrip :: "char \<Rightarrow> string \<Rightarrow> string" where
  "str_rstrip c s = rev (dropWhile (\<lambda>d. d = c) (rev s))"

text \<open>\<^verbatim>\<open>sep.join(xs)\<close>\<close>

fun str_join :: "string \<Rightarrow> string list \<Rightarrow> string" where
  "str_join sep [] = []"
| "str_join sep [x] = x"
| "str_join sep (x # y # ys) = x @ sep @ str_join sep (y # ys)"

text \<open>\<^verbatim>\<open>s.replace(old, new)\<close> for a non-empty \<^verbatim>\<open>old\<close>: the occurrences are replaced
  from the left, without overlap.\<close>

fun str_replace :: "string \<Rightarrow> string \<Rightarrow> string \<Rightarrow> string" where
  "str_replace old new [] = []"
| "str_replace old new (c # cs) =
     (if old \<noteq> [] \<and> prefix old (c # cs)
      then new @ str_replace old new (drop (length old) (c # cs))
      else c # str_replace old new cs)"

text \<open>\<^verbatim>\<open>str(n)\<close> for a natural number, as an f-string prints a \<^verbatim>\<open>len\<close> or a counter.\<close>

definition digit_char :: "nat \<Rightarrow> char" where
  "digit_char d = char_of (48 + d)"

function str_of_nat :: "nat \<Rightarrow> string" where
  "str_of_nat n = (if n < 10 then [digit_char n] else str_of_nat (n div 10) @ [digit_char (n mod 10)])"
  by pat_completeness auto
termination
  by (relation "measure id") auto

declare str_of_nat.simps [simp del]

subsection \<open>Floating point values\<close>

text \<open>A \<^verbatim>\<open>float\<close>. \<open>Finite x\<close> is the number \<open>x\<close> (with \<open>Finite 0\<close> the positive
  zero), \<open>NegZero\<close> is \<^verbatim>\<open>-0.0\<close>.\<close>

datatype pyfloat = Finite rat | NegZero | PosInf | NegInf | NaN

definition pow2 :: "int \<Rightarrow> rat" where
  "pow2 e = (if 0 \<le> e then 2 ^ nat e else 1 / 2 ^ nat (- e))"

definition pow10 :: "int \<Rightarrow> rat" where
  "pow10 e = (if 0 \<le> e then 10 ^ nat e else 1 / 10 ^ nat (- e))"

text \<open>The exponent of the leading bit of a positive rational: \<open>2 ^ e \<le> x < 2 ^ (e + 1)\<close>.\<close>

definition ilog2 :: "rat \<Rightarrow> int" where
  "ilog2 x = (let (n, d) = quotient_of x; e = bitlen n - bitlen d
              in if pow2 e \<le> x then e else e - 1)"

text \<open>Rounding to the nearest integer, a tie to the even one.\<close>

definition round_even :: "rat \<Rightarrow> int" where
  "round_even x = (let f = \<lfloor>x\<rfloor>; r = x - of_int f
                   in if r < 1 / 2 then f else if 1 / 2 < r then f + 1
                      else if even f then f else f + 1)"

text \<open>Rounding a rational to binary64: 53 bits of precision, least exponent \<open>-1022\<close>
  (below it the spacing stays \<open>2 ^ -1074\<close>), overflow to an infinity from \<open>2 ^ 1024\<close> on,
  the sign kept when the result is zero.\<close>

definition binary64 :: "rat \<Rightarrow> pyfloat" where
  "binary64 x =
     (if x = 0 then Finite 0
      else let a = \<bar>x\<bar>; e = max (ilog2 a) (- 1022); q = pow2 (e - 52);
               v = of_int (round_even (a / q)) * q
           in if pow2 1024 \<le> v then (if x < 0 then NegInf else PosInf)
              else if v = 0 then (if x < 0 then NegZero else Finite 0)
              else Finite (if x < 0 then - v else v))"

text \<open>\<^verbatim>\<open>float(s)\<close>. The grammar of the Python reference:
  \<^verbatim>\<open>[sign] (floatnumber | "inf" | "infinity" | "nan")\<close> around white space, the words in any
  case, \<^verbatim>\<open>floatnumber ::= ([digitpart] "." digitpart | digitpart ["."]) [("e"|"E") [sign] digitpart]\<close>
  and \<^verbatim>\<open>digitpart ::= digit (["_"] digit)*\<close>. \<open>None\<close> is the \<^verbatim>\<open>ValueError\<close>.\<close>

fun digitpart_rest :: "string \<Rightarrow> bool" where
  "digitpart_rest [] = True"
| "digitpart_rest [c] = is_digit c"
| "digitpart_rest (c # d # cs) =
     (if c = CHR ''_'' then is_digit d \<and> digitpart_rest cs
      else is_digit c \<and> digitpart_rest (d # cs))"

definition digitpart :: "string \<Rightarrow> bool" where
  "digitpart s = (case s of [] \<Rightarrow> False | c # cs \<Rightarrow> is_digit c \<and> digitpart_rest cs)"

definition digits_val :: "string \<Rightarrow> nat" where
  "digits_val s = foldl (\<lambda>acc c. 10 * acc + digit_val c) 0 (filter is_digit s)"

definition is_sign :: "char \<Rightarrow> bool" where
  "is_sign c = (c = CHR ''+'' \<or> c = CHR ''-'')"

definition unsigned :: "string \<Rightarrow> string" where
  "unsigned s = (case s of [] \<Rightarrow> [] | c # cs \<Rightarrow> if is_sign c then cs else c # cs)"

definition negative :: "string \<Rightarrow> bool" where
  "negative s = (case s of [] \<Rightarrow> False | c # cs \<Rightarrow> c = CHR ''-'')"

definition not_exp :: "char \<Rightarrow> bool" where
  "not_exp c = (c \<noteq> CHR ''e'' \<and> c \<noteq> CHR ''E'')"

definition not_dot :: "char \<Rightarrow> bool" where
  "not_dot c = (c \<noteq> CHR ''.'')"

text \<open>The mantissa digits as a number and the decimal exponent that goes with them.\<close>

definition floatnumber :: "string \<Rightarrow> (nat \<times> int) option" where
  "floatnumber s =
     (let mant = takeWhile not_exp s; ex = dropWhile not_exp s;
          ip = takeWhile not_dot mant; fr = dropWhile not_dot mant;
          fp = (case fr of [] \<Rightarrow> [] | c # cs \<Rightarrow> cs);
          mant_ok = (case fr of [] \<Rightarrow> digitpart ip
                     | c # cs \<Rightarrow> (digitpart cs \<and> (ip = [] \<or> digitpart ip)) \<or> (digitpart ip \<and> cs = []));
          expo = (case ex of [] \<Rightarrow> Some 0
                  | c # cs \<Rightarrow> if digitpart (unsigned cs)
                             then Some (if negative cs then - int (digits_val cs) else int (digits_val cs))
                             else None)
      in if mant_ok
         then (case expo of None \<Rightarrow> None
               | Some k \<Rightarrow> Some (digits_val (ip @ fp), k - int (length (filter is_digit fp))))
         else None)"

definition py_float :: "string \<Rightarrow> pyfloat option" where
  "py_float s0 =
     (let s = str_strip s0; body = unsigned s; word = str_lower body
      in if word = ''inf'' \<or> word = ''infinity'' then Some (if negative s then NegInf else PosInf)
         else if word = ''nan'' then Some NaN
         else (case floatnumber body of None \<Rightarrow> None
               | Some (m, k) \<Rightarrow>
                   if m = 0 then Some (if negative s then NegZero else Finite 0)
                   else Some (binary64 ((if negative s then - 1 else 1) * of_nat m * pow10 k))))"

text \<open>\<^verbatim>\<open>x > k\<close> for a float \<^verbatim>\<open>x\<close> and an integer literal \<^verbatim>\<open>k\<close>: false for NaN.\<close>

definition float_gt :: "pyfloat \<Rightarrow> int \<Rightarrow> bool" where
  "float_gt x k = (case x of Finite r \<Rightarrow> of_int k < r | NegZero \<Rightarrow> k < 0
                   | PosInf \<Rightarrow> True | NegInf \<Rightarrow> False | NaN \<Rightarrow> False)"

text \<open>\<^verbatim>\<open>x + y\<close> on floats.\<close>

definition float_add :: "pyfloat \<Rightarrow> pyfloat \<Rightarrow> pyfloat" where
  "float_add x y =
     (case (x, y) of
        (NaN, _) \<Rightarrow> NaN
      | (_, NaN) \<Rightarrow> NaN
      | (PosInf, NegInf) \<Rightarrow> NaN
      | (NegInf, PosInf) \<Rightarrow> NaN
      | (PosInf, _) \<Rightarrow> PosInf
      | (_, PosInf) \<Rightarrow> PosInf
      | (NegInf, _) \<Rightarrow> NegInf
      | (_, NegInf) \<Rightarrow> NegInf
      | (NegZero, NegZero) \<Rightarrow> NegZero
      | (NegZero, Finite b) \<Rightarrow> Finite b
      | (Finite a, NegZero) \<Rightarrow> Finite a
      | (Finite a, Finite b) \<Rightarrow> binary64 (a + b))"

text \<open>\<^verbatim>\<open>sum(xs)\<close>: the additions run from the left, starting from the integer \<^verbatim>\<open>0\<close>.\<close>

definition py_sum :: "pyfloat list \<Rightarrow> pyfloat" where
  "py_sum xs = foldl float_add (Finite 0) xs"

text \<open>\<^verbatim>\<open>f"{x:.1f}"\<close>: one digit after the point, the exact value rounded with ties to
  even, the sign kept also when the digits are all zero.\<close>

definition fmt1 :: "pyfloat \<Rightarrow> string" where
  "fmt1 x = (case x of
       Finite r \<Rightarrow> (let t = nat (round_even (\<bar>r\<bar> * 10))
                    in (if r < 0 then ''-'' else []) @ str_of_nat (t div 10) @ ''.'' @ str_of_nat (t mod 10))
     | NegZero \<Rightarrow> ''-0.0''
     | PosInf \<Rightarrow> ''inf''
     | NegInf \<Rightarrow> ''-inf''
     | NaN \<Rightarrow> ''nan'')"

subsection \<open>Exceptions and indexing\<close>

datatype error = ValueError | IndexError | KeyError

text \<open>\<^verbatim>\<open>xs[i]\<close> for a literal index \<^verbatim>\<open>i \<ge> 0\<close>.\<close>

definition py_nth :: "'a list \<Rightarrow> nat \<Rightarrow> error + 'a" where
  "py_nth xs i = (if i < length xs then Inr (xs ! i) else Inl IndexError)"

definition to_float :: "string \<Rightarrow> error + pyfloat" where
  "to_float s = (case py_float s of None \<Rightarrow> Inl ValueError | Some x \<Rightarrow> Inr x)"

text \<open>Sequencing of two steps, the first of which may raise.\<close>

definition and_then :: "error + 'a \<Rightarrow> ('a \<Rightarrow> error + 'b) \<Rightarrow> error + 'b" where
  "and_then r f = (case r of Inl e \<Rightarrow> Inl e | Inr x \<Rightarrow> f x)"

subsection \<open>The table parser: \<^verbatim>\<open>parse_top_output\<close>\<close>

record function_stat =
  flat_time :: string
  flat_pct :: pyfloat
  cum_time :: string
  cum_pct :: pyfloat
  name :: string

text \<open>The header test of the loop: \<^verbatim>\<open>'flat' in line and 'cum' in line\<close>.\<close>

definition is_header :: "string \<Rightarrow> bool" where
  "is_header line = (str_contains ''flat'' line \<and> str_contains ''cum'' line)"

text \<open>The body of the \<^verbatim>\<open>try\<close>: the five assignments, then the dictionary, whose
  \<^verbatim>\<open>float\<close> calls run in the order of its keys.\<close>

definition parse_row :: "string list \<Rightarrow> error + function_stat" where
  "parse_row parts =
     and_then (py_nth parts 0) (\<lambda>ft.
     and_then (py_nth parts 1) (\<lambda>p1.
     and_then (py_nth parts 3) (\<lambda>ct.
     and_then (py_nth parts 4) (\<lambda>p4.
       let flat_pct_s = str_rstrip (CHR ''%'') p1;
           cum_pct_s = str_rstrip (CHR ''%'') p4;
           func_name = str_join '' '' (drop 5 parts)
       in and_then (to_float flat_pct_s) (\<lambda>fp.
          and_then (to_float cum_pct_s) (\<lambda>cp.
            Inr \<lparr>flat_time = ft, flat_pct = fp, cum_time = ct, cum_pct = cp,
                 name = func_name\<rparr>))))))"

text \<open>The \<^verbatim>\<open>for line in lines\<close> loop, with \<^verbatim>\<open>data_started\<close> and \<^verbatim>\<open>functions\<close> as its
  state. \<^verbatim>\<open>except (ValueError, IndexError): continue\<close> catches those two exceptions and
  lets any other one through.\<close>

fun parse_loop :: "bool \<Rightarrow> function_stat list \<Rightarrow> string list \<Rightarrow> error + function_stat list" where
  "parse_loop data_started functions [] = Inr functions"
| "parse_loop data_started functions (line # lines) =
     (if is_header line then parse_loop True functions lines
      else if \<not> data_started \<or> str_strip line = [] then parse_loop data_started functions lines
      else let parts = str_split line
           in if 6 \<le> length parts
              then (case parse_row parts of
                      Inr f \<Rightarrow> parse_loop data_started (functions @ [f]) lines
                    | Inl e \<Rightarrow> if e = ValueError \<or> e = IndexError
                               then parse_loop data_started functions lines
                               else Inl e)
              else parse_loop data_started functions lines)"

definition parse_top_output :: "string \<Rightarrow> error + function_stat list" where
  "parse_top_output top_output = parse_loop False [] (split_lines top_output)"

subsection \<open>The hotspot classifier: \<^verbatim>\<open>identify_hotspots\<close>\<close>

record hotspot =
  hs_function :: string
  hs_flat_pct :: pyfloat
  hs_cum_pct :: pyfloat
  hs_priority :: string
  hs_issues :: "string list"

text \<open>\<^verbatim>\<open>any(pattern in func['name'].lower() for pattern in patterns)\<close>\<close>

definition any_in :: "string list \<Rightarrow> string \<Rightarrow> bool" where
  "any_in patterns s = list_ex (\<lambda>pattern. str_contains pattern (str_lower s)) patterns"

text \<open>The nine blocks of the loop body, in the order of the source. Each one maps the
  pair of the local variables \<^verbatim>\<open>priority\<close> and \<^verbatim>\<open>issues\<close> to its new value.\<close>

type_synonym verdict = "string \<times> string list"

definition rule_flat :: "function_stat \<Rightarrow> verdict \<Rightarrow> verdict" where
  "rule_flat func = (\<lambda>(priority, issues).
     if float_gt (flat_pct func) 10
     then (''HIGH'', issues @ [''Consumes '' @ fmt1 (flat_pct func) @ ''% CPU directly''])
     else if float_gt (flat_pct func) 5
     then (''MEDIUM'', issues @ [''Consumes '' @ fmt1 (flat_pct func) @ ''% CPU directly''])
     else (priority, issues))"

definition rule_cum :: "function_stat \<Rightarrow> verdict \<Rightarrow> verdict" where
  "rule_cum func = (\<lambda>(priority, issues).
     if float_gt (cum_pct func) 20
     then ((if priority \<noteq> ''HIGH'' then ''MEDIUM'' else priority),
           issues @ [''Call tree consumes '' @ fmt1 (cum_pct func) @ ''% total CPU''])
     else (priority, issues))"

definition rule_gc :: "function_stat \<Rightarrow> verdict \<Rightarrow> verdict" where
  "rule_gc func = (\<lambda>(priority, issues).
     if any_in [''gc'', ''garbage'', ''sweep''] (name func)
     then ((if float_gt (flat_pct func) 5 then ''HIGH'' else priority),
           issues @ [''Garbage collection overhead''])
     else (priority, issues))"

definition rule_lock :: "function_stat \<Rightarrow> verdict \<Rightarrow> verdict" where
  "rule_lock func = (\<lambda>(priority, issues).
     if any_in [''lock'', ''mutex'', ''sync''] (name func)
     then ((if float_gt (flat_pct func) 3 then ''HIGH'' else priority),
           issues @ [''Synchronization/locking detected''])
     else (priority, issues))"

definition rule_json :: "function_stat \<Rightarrow> verdict \<Rightarrow> verdict" where
  "rule_json func = (\<lambda>(priority, issues).
     if any_in [''json'', ''marshal'', ''unmarshal''] (name func)
     then ((if float_gt (flat_pct func) 5 then ''MEDIUM'' else priority),
           issues @ [''JSON serialization overhead''])
     else (priority, issues))"

definition rule_sql :: "function_stat \<Rightarrow> verdict \<Rightarrow> verdict" where
  "rule_sql func = (\<lambda>(priority, issues).
     if any_in [''sql'', ''query'', ''exec''] (name func)
     then ((if float_gt (flat_pct func) 5 then ''HIGH'' else priority),
           issues @ [''Database query overhead''])
     else (priority, issues))"

definition rule_reflect :: "function_stat \<Rightarrow> verdict \<Rightarrow> verdict" where
  "rule_reflect func = (\<lambda>(priority, issues).
     if str_contains ''reflect'' (str_lower (name func))
     then ((if float_gt (flat_pct func) 3 then ''MEDIUM'' else priority),
           issues @ [''Reflection usage (slow)''])
     else (priority, issues))"

definition rule_regex :: "function_stat \<Rightarrow> verdict \<Rightarrow> verdict" where
  "rule_regex func = (\<lambda>(priority, issues).
     if any_in [''regex'', ''regexp''] (name func)
     then (priority, issues @ [''Regular expression overhead''])
     else (priority, issues))"

definition rule_syscall :: "function_stat \<Rightarrow> verdict \<Rightarrow> verdict" where
  "rule_syscall func = (\<lambda>(priority, issues).
     if str_contains ''syscall'' (str_lower (name func))
     then (priority, issues @ [''System call overhead''])
     else (priority, issues))"

definition rules :: "(function_stat \<Rightarrow> verdict \<Rightarrow> verdict) list" where
  "rules = [rule_flat, rule_cum, rule_gc, rule_lock, rule_json, rule_sql, rule_reflect,
            rule_regex, rule_syscall]"

text \<open>The local variables after the first \<open>k\<close> blocks, from \<^verbatim>\<open>priority = 'LOW'\<close> and
  \<^verbatim>\<open>issues = []\<close>; after all of them.\<close>

definition verdict_after :: "nat \<Rightarrow> function_stat \<Rightarrow> verdict" where
  "verdict_after k func = foldl (\<lambda>v rule. rule func v) (''LOW'', []) (take k rules)"

definition final_verdict :: "function_stat \<Rightarrow> verdict" where
  "final_verdict func = foldl (\<lambda>v rule. rule func v) (''LOW'', []) rules"

text \<open>The end of the loop body: \<^verbatim>\<open>if issues: hotspots.append({...})\<close>; and the loop.\<close>

definition classify :: "function_stat \<Rightarrow> hotspot list" where
  "classify func = (let (priority, issues) = final_verdict func
     in if issues \<noteq> []
        then [\<lparr>hs_function = name func, hs_flat_pct = flat_pct func, hs_cum_pct = cum_pct func,
               hs_priority = priority, hs_issues = issues\<rparr>]
        else [])"

definition identify_hotspots :: "function_stat list \<Rightarrow> hotspot list" where
  "identify_hotspots functions = foldl (\<lambda>hotspots func. hotspots @ classify func) [] functions"

subsection \<open>The recommendation synthesizer: \<^verbatim>\<open>generate_recommendations\<close>\<close>

record recommendation =
  rec_category :: string
  rec_priority :: string
  rec_issue :: string
  rec_suggestions :: "string list"

text \<open>The dictionary \<^verbatim>\<open>issue_groups\<close>: its seven keys are fixed, so it is a record of
  seven lists.\<close>

record issue_groups =
  gc :: "hotspot list"
  lock :: "hotspot list"
  json :: "hotspot list"
  sql :: "hotspot list"
  reflect :: "hotspot list"
  regex :: "hotspot list"
  syscall :: "hotspot list"

definition empty_groups :: issue_groups where
  "empty_groups = \<lparr>gc = [], lock = [], json = [], sql = [], reflect = [], regex = [],
                    syscall = []\<rparr>"

text \<open>The \<^verbatim>\<open>if/elif\<close> chain on one issue of one hotspot.\<close>

definition file_issue :: "hotspot \<Rightarrow> issue_groups \<Rightarrow> string \<Rightarrow> issue_groups" where
  "file_issue h g issue = (let low = str_lower issue in
     if str_contains ''garbage collection'' low then g\<lparr>gc := gc g @ [h]\<rparr>
     else if str_contains ''synchronization'' low \<or> str_contains ''locking'' low
       then g\<lparr>lock := lock g @ [h]\<rparr>
     else if str_contains ''json'' low then g\<lparr>json := json g @ [h]\<rparr>
     else if str_contains ''database'' low then g\<lparr>sql := sql g @ [h]\<rparr>
     else if str_contains ''reflection'' low then g\<lparr>reflect := reflect g @ [h]\<rparr>
     else if str_contains ''regular expression'' low then g\<lparr>regex := regex g @ [h]\<rparr>
     else if str_contains ''system call'' low then g\<lparr>syscall := syscall g @ [h]\<rparr>
     else g)"

definition group_issues :: "hotspot list \<Rightarrow> issue_groups" where
  "group_issues hs = foldl (\<lambda>g h. foldl (file_issue h) g (hs_issues h)) empty_groups hs"

text \<open>\<^verbatim>\<open>sum(h['flat_pct'] for h in members)\<close>\<close>

definition total_flat :: "hotspot list \<Rightarrow> pyfloat" where
  "total_flat members = py_sum (map hs_flat_pct members)"

definition gc_entry :: "hotspot list \<Rightarrow> recommendation" where
  "gc_entry members = (let total_gc = total_flat members in
     \<lparr>rec_category = ''Memory Management'',
      rec_priority = (if float_gt total_gc 10 then ''HIGH'' else ''MEDIUM''),
      rec_issue = ''GC overhead: '' @ fmt1 total_gc @ ''% CPU'',
      rec_suggestions =
        [''Reduce allocations using object pooling (sync.Pool)'',
         ''Pre-allocate slices and maps with known capacity'',
         ''Use value types instead of pointers where possible'',
         ''Consider increasing GOGC value if memory permits'']\<rparr>)"

definition lock_entry :: "hotspot list \<Rightarrow> recommendation" where
  "lock_entry members = (let total_lock = total_flat members in
     \<lparr>rec_category = ''Concurrency'',
      rec_priority = (if float_gt total_lock 5 then ''HIGH'' else ''MEDIUM''),
      rec_issue = ''Lock contention: '' @ fmt1 total_lock @ ''% CPU'',
      rec_suggestions =
        [''Reduce lock granularity (use more fine-grained locks)'',
         ''Replace mutexes with channels where appropriate'',
         ''Use sync.RWMutex for read-heavy workloads'',
         ''Consider lock-free data structures'',
         ''Run blocking profile: make profile-block'']\<rparr>)"

definition json_entry :: "hotspot list \<Rightarrow> recommendation" where
  "json_entry members = (let total_json = total_flat members in
     \<lparr>rec_category = ''Serialization'',
      rec_priority = (if float_gt total_json 5 then ''MEDIUM'' else ''LOW''),
      rec_issue = ''JSON overhead: '' @ fmt1 total_json @ ''% CPU'',
      rec_suggestions =
        [''Use json.RawMessage for delayed parsing'',
         ''Consider faster alternatives (easyjson, jsoniter)'',
         ''Batch JSON operations'',
         ''Use streaming for large payloads'']\<rparr>)"

definition sql_entry :: "hotspot list \<Rightarrow> recommendation" where
  "sql_entry members = (let total_sql = total_flat members in
     \<lparr>rec_category = ''Database'',
      rec_priority = (if float_gt total_sql 10 then ''HIGH'' else ''MEDIUM''),
      rec_issue = ''Database overhead: '' @ fmt1 total_sql @ ''% CPU'',
      rec_suggestions =
        [''Add indexes for slow queries'',
         ''Use prepared statements'',
         ''Implement caching layer (Redis)'',
         ''Batch database operations'',
         ''Consider connection pooling optimization'']\<rparr>)"

definition reflect_entry :: "hotspot list \<Rightarrow> recommendation" where
  "reflect_entry members = (let total_reflect = total_flat members in
     \<lparr>rec_category = ''Code Generation'',
      rec_priority = ''MEDIUM'',
      rec_issue = ''Reflection overhead: '' @ fmt1 total_reflect @ ''% CPU'',
      rec_suggestions =
        [''Replace reflection with code generation'',
         ''Cache reflection results'',
         ''Use concrete types instead of interface{}'',
         ''Consider compile-time alternatives'']\<rparr>)"

text \<open>The five \<^verbatim>\<open>if issue_groups[...]: recommendations.append(...)\<close> blocks.\<close>

definition generate_recommendations :: "hotspot list \<Rightarrow> recommendation list" where
  "generate_recommendations hs = (let g = group_issues hs;
     r0 = [];
     r1 = (if gc g \<noteq> [] then r0 @ [gc_entry (gc g)] else r0);
     r2 = (if lock g \<noteq> [] then r1 @ [lock_entry (lock g)] else r1);
     r3 = (if json g \<noteq> [] then r2 @ [json_entry (json g)] else r2);
     r4 = (if sql g \<noteq> [] then r3 @ [sql_entry (sql g)] else r3);
     r5 = (if reflect g \<noteq> [] then r4 @ [reflect_entry (reflect g)] else r4)
   in r5)"

subsection \<open>The report renderer: \<^verbatim>\<open>generate_report\<close>\<close>

text \<open>The fields of \<^verbatim>\<open>self\<close>. \<^verbatim>\<open>profile_name\<close> is set by the constructor from the path.\<close>

record analyzer =
  profile_path :: string
  profile_name :: string
  hotspots :: "hotspot list"
  recommendations :: "recommendation list"

text \<open>The reading of the clock, \<^verbatim>\<open>datetime.now()\<close>, is an input of the renderer.
  \<^verbatim>\<open>strftime('%Y-%m-%d %H:%M:%S')\<close> pads each field with zeros.\<close>

record datetime =
  dt_year :: nat
  dt_month :: nat
  dt_day :: nat
  dt_hour :: nat
  dt_minute :: nat
  dt_second :: nat

definition zero_pad :: "nat \<Rightarrow> nat \<Rightarrow> string" where
  "zero_pad w n = replicate (w - length (str_of_nat n)) (CHR ''0'') @ str_of_nat n"

definition strftime :: "datetime \<Rightarrow> string" where
  "strftime t = zero_pad 4 (dt_year t) @ ''-'' @ zero_pad 2 (dt_month t) @ ''-'' @
     zero_pad 2 (dt_day t) @ '' '' @ zero_pad 2 (dt_hour t) @ '':'' @
     zero_pad 2 (dt_minute t) @ '':'' @ zero_pad 2 (dt_second t)"

text \<open>The glyphs of the report, as the bytes of the source file.\<close>

definition icon_summary :: string where
  "icon_summary = [CHR 0xC3, CHR 0xB0, CHR 0xC5, CHR 0xB8, CHR 0xC5, CHR 0xBD, CHR 0xC2, CHR 0xAF]"

definition icon_hotspots :: string where
  "icon_hotspots = [CHR 0xC3, CHR 0xB0, CHR 0xC5, CHR 0xB8, CHR 0xE2, CHR 0x80, CHR 0x9D, CHR 0xC2, CHR 0xA5]"

definition icon_recommendations :: string where
  "icon_recommendations = [CHR 0xC3, CHR 0xB0, CHR 0xC5, CHR 0xB8, CHR 0xE2, CHR 0x80, CHR 0x99, CHR 0xC2, CHR 0xA1]"

definition icon_next :: string where
  "icon_next = [CHR 0xC3, CHR 0xB0, CHR 0xC5, CHR 0xB8, CHR 0xC5, CHR 0xA1, CHR 0xE2, CHR 0x82, CHR 0xAC]"

definition icon_high :: string where
  "icon_high = [CHR 0xC3, CHR 0xB0, CHR 0xC5, CHR 0xB8, CHR 0xE2, CHR 0x80, CHR 0x9D, CHR 0xC2, CHR 0xB4]"

definition icon_medium :: string where
  "icon_medium = [CHR 0xC3, CHR 0xB0, CHR 0xC5, CHR 0xB8, CHR 0xC5, CHR 0xB8, CHR 0xC2, CHR 0xA1]"

definition icon_low :: string where
  "icon_low = [CHR 0xC3, CHR 0xB0, CHR 0xC5, CHR 0xB8, CHR 0xC5, CHR 0xB8, CHR 0xC2, CHR 0xA2]"

text \<open>The lookup \<^verbatim>\<open>{'HIGH': ..., 'MEDIUM': ..., 'LOW': ...}[priority]\<close>: a \<^verbatim>\<open>KeyError\<close> on
  any other key.\<close>

definition priority_emoji :: "string \<Rightarrow> error + string" where
  "priority_emoji p =
     (if p = ''HIGH'' then Inr icon_high
      else if p = ''MEDIUM'' then Inr icon_medium
      else if p = ''LOW'' then Inr icon_low
      else Inl KeyError)"

text \<open>\<^verbatim>\<open>for x in xs: f.write(f"- {x}\n")\<close>\<close>

definition bullet_lines :: "string list \<Rightarrow> string" where
  "bullet_lines xs = foldl (\<lambda>out x. out @ ''- '' @ x @ ''\<newline>'') [] xs"

definition report_header :: "analyzer \<Rightarrow> datetime \<Rightarrow> string" where
  "report_header self now =
     ''# Flamegraph Analysis Report\<newline>\<newline>'' @
     ''**Profile:** `'' @ profile_name self @ ''`\<newline>'' @
     ''**Generated:** '' @ strftime now @ ''\<newline>'' @
     ''**Profile Path:** `'' @ profile_path self @ ''`\<newline>\<newline>'' @
     ''---\<newline>\<newline>''"

definition summary_section :: "hotspot list \<Rightarrow> string" where
  "summary_section hs =
     ''## '' @ icon_summary @ '' Executive Summary\<newline>\<newline>'' @
     (case hs of
        top_hotspot # rest \<Rightarrow>
          ''**Top Hotspot:** `'' @ hs_function top_hotspot @ ''`\<newline>'' @
          ''- **CPU Usage:** '' @ fmt1 (hs_flat_pct top_hotspot) @ ''% (direct)\<newline>'' @
          ''- **Priority:** '' @ hs_priority top_hotspot @ ''\<newline>\<newline>'' @
          (let high_priority = filter (\<lambda>h. hs_priority h = ''HIGH'') hs
           in ''**Critical Issues:** '' @ str_of_nat (length high_priority) @
              '' high-priority hotspots found\<newline>\<newline>'')
      | [] \<Rightarrow> ''No significant hotspots detected. Performance appears optimal.\<newline>\<newline>'')"

definition hotspot_entry :: "nat \<Rightarrow> string \<Rightarrow> hotspot \<Rightarrow> string" where
  "hotspot_entry i emoji h =
     ''### '' @ str_of_nat i @ ''. '' @ emoji @ '' '' @ hs_priority h @ '' Priority\<newline>\<newline>'' @
     ''**Function:** `'' @ hs_function h @ ''`\<newline>\<newline>'' @
     ''**Metrics:**\<newline>'' @
     ''- Direct CPU: '' @ fmt1 (hs_flat_pct h) @ ''%\<newline>'' @
     ''- Total CPU (with callees): '' @ fmt1 (hs_cum_pct h) @ ''%\<newline>\<newline>'' @
     ''**Issues Identified:**\<newline>'' @
     bullet_lines (hs_issues h) @
     ''\<newline>''"

text \<open>\<^verbatim>\<open>for i, hotspot in enumerate(xs, i0)\<close>, with the text written so far as the state.
  A failing lookup ends the loop with the exception.\<close>

fun hotspot_loop :: "nat \<Rightarrow> string \<Rightarrow> hotspot list \<Rightarrow> error + string" where
  "hotspot_loop i out [] = Inr out"
| "hotspot_loop i out (h # hs) =
     (case priority_emoji (hs_priority h) of
        Inl e \<Rightarrow> Inl e
      | Inr emoji \<Rightarrow> hotspot_loop (Suc i) (out @ hotspot_entry i emoji h) hs)"

definition hotspots_section :: "hotspot list \<Rightarrow> error + string" where
  "hotspots_section hs =
     (let out = ''## '' @ icon_hotspots @ '' Top Performance Hotspots\<newline>\<newline>''
      in if hs \<noteq> [] then hotspot_loop 1 out (take 10 hs)
         else Inr (out @ ''No hotspots detected.\<newline>\<newline>''))"

definition recommendation_entry :: "nat \<Rightarrow> string \<Rightarrow> recommendation \<Rightarrow> string" where
  "recommendation_entry i emoji r =
     ''### '' @ str_of_nat i @ ''. '' @ emoji @ '' '' @ rec_category r @ ''\<newline>\<newline>'' @
     ''**Priority:** '' @ rec_priority r @ ''\<newline>'' @
     ''**Issue:** '' @ rec_issue r @ ''\<newline>\<newline>'' @
     ''**Suggested Actions:**\<newline>'' @
     bullet_lines (rec_suggestions r) @
     ''\<newline>''"

fun recommendation_loop :: "nat \<Rightarrow> string \<Rightarrow> recommendation list \<Rightarrow> error + string" where
  "recommendation_loop i out [] = Inr out"
| "recommendation_loop i out (r # rs) =
     (case priority_emoji (rec_priority r) of
        Inl e \<Rightarrow> Inl e
      | Inr emoji \<Rightarrow> recommendation_loop (Suc i) (out @ recommendation_entry i emoji r) rs)"

definition recommendations_section :: "recommendation list \<Rightarrow> error + string" where
  "recommendations_section rs =
     (let out = ''## '' @ icon_recommendations @ '' Optimization Recommendations\<newline>\<newline>''
      in if rs \<noteq> [] then recommendation_loop 1 out rs
         else Inr (out @ ''No specific recommendations. Profile looks healthy!\<newline>\<newline>''))"

definition next_steps :: "analyzer \<Rightarrow> string" where
  "next_steps self =
     ''## '' @ icon_next @ '' Next Steps\<newline>\<newline>'' @
     ''1. **Review the flamegraph visually:**\<newline>'' @
     ''   ```bash\<newline>'' @
     ''   firefox '' @ str_replace ''.pb.gz'' ''.svg'' (profile_path self) @ ''\<newline>'' @
     ''   ```\<newline>\<newline>'' @
     ''2. **Interactive analysis:**\<newline>'' @
     ''   ```bash\<newline>'' @
     ''   go tool pprof '' @ profile_path self @ ''\<newline>'' @
     ''   # Commands: top, list <function>, web\<newline>'' @
     ''   ```\<newline>\<newline>'' @
     ''3. **Generate additional profiles:**\<newline>'' @
     ''   ```bash\<newline>'' @
     ''   make profile-heap      # Memory allocation profile\<newline>'' @
     ''   make profile-goroutine # Goroutine usage\<newline>'' @
     ''   make profile-block     # Blocking operations\<newline>'' @
     ''   make profile-mutex     # Lock contention\<newline>'' @
     ''   ```\<newline>\<newline>''"

definition report_footer :: string where
  "report_footer = ''---\<newline>\<newline>'' @ ''*Generated by AI Flamegraph Analyzer*\<newline>''"

text \<open>The text that \<^verbatim>\<open>generate_report\<close> writes to the report file when no lookup fails:
  the writes of the function, in their order.\<close>

definition generate_report :: "analyzer \<Rightarrow> datetime \<Rightarrow> error + string" where
  "generate_report self now =
     and_then (hotspots_section (hotspots self)) (\<lambda>hot.
     and_then (recommendations_section (recommendations self)) (\<lambda>recs.
       Inr (report_header self now @ summary_section (hotspots self) @ hot @ recs @
            next_steps self @ report_footer)))"

subsection \<open>The driver: \<^verbatim>\<open>analyze\<close>\<close>

text \<open>The lines that the last part of \<^verbatim>\<open>analyze\<close> prints for the first three hotspots.\<close>

definition func_short :: "string \<Rightarrow> string" where
  "func_short f = (if 60 < length f then take 60 f @ ''...'' else f)"

fun summary_loop :: "nat \<Rightarrow> string list \<Rightarrow> hotspot list \<Rightarrow> error + string list" where
  "summary_loop i out [] = Inr out"
| "summary_loop i out (h # hs) =
     (case priority_emoji (hs_priority h) of
        Inl e \<Rightarrow> Inl e
      | Inr emoji \<Rightarrow>
          (case py_nth (hs_issues h) 0 of
             Inl e \<Rightarrow> Inl e
           | Inr first_issue \<Rightarrow>
               summary_loop (Suc i)
                 (out @ [''  '' @ str_of_nat i @ ''. '' @ emoji @ '' '' @ func_short (hs_function h),
                         ''     '' @ fmt1 (hs_flat_pct h) @ ''% CPU - '' @ first_issue]) hs))"

definition quick_summary :: "hotspot list \<Rightarrow> error + string list" where
  "quick_summary hs =
     (if hs \<noteq> []
      then and_then (summary_loop 1 [icon_hotspots @ '' Top 3 Hotspots:''] (take 3 hs))
             (\<lambda>out. Inr (out @ [[]]))
      else Inr [])"

text \<open>\<^verbatim>\<open>analyze\<close>, given the text that \<^verbatim>\<open>run_pprof_top\<close> returned and the reading of the
  clock. The result is \<open>None\<close> where the source returns \<^verbatim>\<open>None\<close>, and otherwise the text
  of the report together with the lines of the quick summary; the progress messages and
  the path of the report file are left out.\<close>

definition analyze :: "analyzer \<Rightarrow> string \<Rightarrow> datetime \<Rightarrow> error + (string \<times> string list) option" where
  "analyze self top_output now =
     (if top_output = [] then Inr None
      else and_then (parse_top_output top_output) (\<lambda>functions.
        let hs = identify_hotspots functions;
            rs = generate_recommendations hs;
            self' = self\<lparr>hotspots := hs, recommendations := rs\<rparr>
        in and_then (generate_report self' now) (\<lambda>report.
           and_then (quick_summary hs) (\<lambda>summary.
             Inr (Some (report, summary))))))"

subsection \<open>Inputs used in the evaluations below\<close>

text \<open>Two rows of the table with 15 per cent of direct CPU time: a JSON encoder and a
  reflective call.\<close>

definition json_hot :: function_stat where
  "json_hot = \<lparr>flat_time = ''150ms'', flat_pct = Finite 15, cum_time = ''150ms'',
     cum_pct = Finite 15, name = ''encoding/json.Marshal''\<rparr>"

definition reflect_hot :: function_stat where
  "reflect_hot = \<lparr>flat_time = ''150ms'', flat_pct = Finite 15, cum_time = ''150ms'',
     cum_pct = Finite 15, name = ''reflect.Value.Call''\<rparr>"

subsection \<open>Notions of the specification about the parser\<close>

text \<open>The lines after the first header line.\<close>

definition lines_after_header :: "string list \<Rightarrow> string list" where
  "lines_after_header ls = drop 1 (dropWhile (\<lambda>l. \<not> is_header l) ls)"

text \<open>A percentage token with its trailing per cent signs stripped.\<close>

definition pct :: "string \<Rightarrow> string" where
  "pct tok = str_rstrip (CHR ''%'') tok"

text \<open>A line that "tokenizes to at least 6 tokens and whose two percentage tokens both parse
  as floating point", and the record that the column mapping of the specification makes of
  such a line.\<close>

definition well_formed_row :: "string \<Rightarrow> bool" where
  "well_formed_row l = (let parts = str_split l in 6 \<le> length parts \<and>
      py_float (pct (parts ! 1)) \<noteq> None \<and> py_float (pct (parts ! 4)) \<noteq> None)"

definition row_record :: "string \<Rightarrow> function_stat" where
  "row_record l = (let parts = str_split l in
     \<lparr>flat_time = parts ! 0, flat_pct = the (py_float (pct (parts ! 1))),
      cum_time = parts ! 3, cum_pct = the (py_float (pct (parts ! 4))),
      name = str_join '' '' (drop 5 parts)\<rparr>)"

text \<open>A line that yields a record once the header has been seen: a well-formed row that
  does not itself pass the header test.\<close>

definition emits :: "string \<Rightarrow> bool" where
  "emits l = (\<not> is_header l \<and> well_formed_row l)"

subsection \<open>Tables used in the evaluations below\<close>

definition table_header :: string where
  "table_header = ''      flat  flat%   sum%        cum   cum%''"

definition good_row_1 :: string where
  "good_row_1 = ''10ms 2.0% 2.0% 10ms 3.0% main.run''"

definition good_row_2 :: string where
  "good_row_2 = ''20ms 7.0% 9.0% 30ms 8.0% sync.(*Mutex).Lock''"

definition short_row :: string where
  "short_row = ''total: 4 tokens''"

definition bad_pct_row :: string where
  "bad_pct_row = ''1ms x% 1% 1ms 1% main.bad''"

definition out_of_range_row :: string where
  "out_of_range_row = ''1ms -5.0% 0% 1ms 250% runtime.gcDrain''"



subsection \<open>Scenario B of the specification\<close>

definition scenario_b :: string where
  "scenario_b = str_join ''\<newline>''
     [table_header, ''50ms 15.0% 15.0% 80ms 25.0% runtime.gcBgMarkWorker'']"

definition gc_worker :: function_stat where
  "gc_worker = \<lparr>flat_time = ''50ms'', flat_pct = Finite 15, cum_time = ''80ms'',
     cum_pct = Finite 25, name = ''runtime.gcBgMarkWorker''\<rparr>"

definition gc_finding :: hotspot where
  "gc_finding = \<lparr>hs_function = ''runtime.gcBgMarkWorker'', hs_flat_pct = Finite 15,
     hs_cum_pct = Finite 25, hs_priority = ''HIGH'',
     hs_issues = [''Consumes 15.0% CPU directly'', ''Call tree consumes 25.0% total CPU'',
                  ''Garbage collection overhead'']\<rparr>"

subsection \<open>Notions of the specification about findings and the report\<close>

text \<open>A record triggers when the nine blocks leave it with an issue; its finding copies the
  name and the two percentages and takes the priority and the issues of the verdict.\<close>

definition triggers :: "function_stat \<Rightarrow> bool" where
  "triggers f = (snd (final_verdict f) \<noteq> [])"

definition finding_of :: "function_stat \<Rightarrow> hotspot" where
  "finding_of f = \<lparr>hs_function = name f, hs_flat_pct = flat_pct f, hs_cum_pct = cum_pct f,
     hs_priority = fst (final_verdict f), hs_issues = snd (final_verdict f)\<rparr>"

text \<open>The three priorities, and the glyph that the report shows for each.\<close>

definition valid_priority :: "string \<Rightarrow> bool" where
  "valid_priority p = (p = ''LOW'' \<or> p = ''MEDIUM'' \<or> p = ''HIGH'')"

definition icon_of :: "string \<Rightarrow> string" where
  "icon_of p = (if p = ''HIGH'' then icon_high else if p = ''MEDIUM'' then icon_medium else icon_low)"

text \<open>The entries of the hotspot section for the first ten findings, numbered from 1.\<close>

definition hotspot_listing :: "hotspot list \<Rightarrow> string" where
  "hotspot_listing hs =
     concat (map (\<lambda>(i, h). hotspot_entry i (icon_of (hs_priority h)) h) (enumerate 1 (take 10 hs)))"

text \<open>An analyzer for a profile at \<^verbatim>\<open>/tmp/cpu.pb.gz\<close>, and a record whose percentages lie
  outside the range from 0 to 100.\<close>

definition example_analyzer :: analyzer where
  "example_analyzer = \<lparr>profile_path = ''/tmp/cpu.pb.gz'', profile_name = ''cpu.pb'',
     hotspots = [], recommendations = []\<rparr>"

definition out_of_range_stat :: function_stat where
  "out_of_range_stat = \<lparr>flat_time = ''1ms'', flat_pct = Finite (- 5), cum_time = ''1ms'',
     cum_pct = Finite 250, name = ''runtime.gcDrain''\<rparr>"



definition out_of_range_table :: string where
  "out_of_range_table = str_join ''\<newline>'' [table_header, out_of_range_row]"

text \<open>Two readings of the clock, one second apart.\<close>

definition example_time :: datetime where
  "example_time = \<lparr>dt_year = 2026, dt_month = 1, dt_day = 2, dt_hour = 3, dt_minute = 4,
     dt_second = 5\<rparr>"

definition later_time :: datetime where
  "later_time = \<lparr>dt_year = 2026, dt_month = 1, dt_day = 2, dt_hour = 3, dt_minute = 4,
     dt_second = 6\<rparr>"

subsection \<open>Notions of the specification about the recommendations\<close>









section \<open>Properties\<close>

subsection \<open>Escalation of the priority\<close>

text \<open>
  C1. The priority of a finding is meant to rise only, rule after rule: no later rule may
  lower a priority that an earlier rule has set to HIGH. The code does not keep to it. The
  block for the hot call path guards its assignment with \<^verbatim>\<open>if priority != 'HIGH'\<close>, but the
  blocks for serialization and for reflection assign \<^verbatim>\<open>'MEDIUM'\<close> without that guard. For
  the row \<open>json_hot\<close> the priority is HIGH after the fourth block and MEDIUM after the fifth,
  for \<open>reflect_hot\<close> it is HIGH after the sixth block and MEDIUM after the seventh, and both
  findings leave the classifier with MEDIUM.
\<close>

theorem later_rules_lower_high:
  "fst (verdict_after 4 json_hot) = ''HIGH'' \<and> fst (verdict_after 5 json_hot) = ''MEDIUM'' \<and>
   map hs_priority (identify_hotspots [json_hot]) = [''MEDIUM''] \<and>
   fst (verdict_after 6 reflect_hot) = ''HIGH'' \<and> fst (verdict_after 7 reflect_hot) = ''MEDIUM'' \<and>
   map hs_priority (identify_hotspots [reflect_hot]) = [''MEDIUM'']"
  by code_simp

subsection \<open>The parser, line by line\<close>

lemma split_run_all_space: "\<forall>c\<in>set s. is_space c \<Longrightarrow> split_run [] s = []"
  by (induction s) auto

lemma strip_empty_all_space: "str_strip s = [] \<Longrightarrow> \<forall>c\<in>set s. is_space c"
proof -
  assume a: "str_strip s = []"
  let ?d = "dropWhile is_space s"
  have all: "\<forall>c\<in>set ?d. is_space c"
    using a by (simp add: str_strip_def)
  have "?d = []"
  proof (rule ccontr)
    assume ne: "?d \<noteq> []"
    then have "\<not> is_space (hd ?d)" by (rule hd_dropWhile)
    moreover have "hd ?d \<in> set ?d" using ne by simp
    ultimately show False using all by blast
  qed
  then show ?thesis by simp
qed

lemma blank_no_tokens: "str_strip s = [] \<Longrightarrow> str_split s = []"
  by (simp add: str_split_def split_run_all_space strip_empty_all_space)

text \<open>With six tokens or more the indexing cannot fail, and the only exception of the
  \<^verbatim>\<open>try\<close> body is the \<^verbatim>\<open>ValueError\<close> of \<^verbatim>\<open>float\<close>.\<close>

lemma parse_row_ok:
  "6 \<le> length parts \<Longrightarrow>
   parse_row parts =
     (case py_float (pct (parts ! 1)) of None \<Rightarrow> Inl ValueError
      | Some fp \<Rightarrow> (case py_float (pct (parts ! 4)) of None \<Rightarrow> Inl ValueError
          | Some cp \<Rightarrow> Inr \<lparr>flat_time = parts ! 0, flat_pct = fp, cum_time = parts ! 3,
                             cum_pct = cp, name = str_join '' '' (drop 5 parts)\<rparr>))"
proof -
  assume "6 \<le> length parts"
  then have "0 < length parts" "1 < length parts" "3 < length parts" "4 < length parts"
    by arith+
  then have nth: "py_nth parts 0 = Inr (parts ! 0)" "py_nth parts 1 = Inr (parts ! 1)"
    "py_nth parts 3 = Inr (parts ! 3)" "py_nth parts 4 = Inr (parts ! 4)"
    unfolding py_nth_def by (simp_all only: if_True)
  show ?thesis
    unfolding parse_row_def nth
    by (simp add: and_then_def to_float_def pct_def Let_def split: option.splits)
qed

lemma parse_loop_step:
  "parse_loop True acc (l # ls) = parse_loop True (if emits l then acc @ [row_record l] else acc) ls"
proof (cases "is_header l")
  case True
  then show ?thesis by (simp add: emits_def)
next
  case nh: False
  show ?thesis
  proof (cases "str_strip l = []")
    case True
    then have "str_split l = []" by (rule blank_no_tokens)
    then have "\<not> well_formed_row l" by (simp add: well_formed_row_def)
    then show ?thesis using nh True by (simp add: emits_def)
  next
    case nb: False
    show ?thesis
    proof (cases "6 \<le> length (str_split l)")
      case False
      then have "\<not> well_formed_row l" by (simp add: well_formed_row_def Let_def)
      then show ?thesis using nh nb False by (simp add: emits_def Let_def)
    next
      case True
      show ?thesis using nh nb True
        by (auto simp add: emits_def Let_def parse_row_ok well_formed_row_def row_record_def
            split: option.splits)
    qed
  qed
qed

lemma parse_loop_started:
  "parse_loop True acc ls = Inr (acc @ map row_record (filter emits ls))"
proof (induction ls arbitrary: acc)
  case Nil
  then show ?case by simp
next
  case (Cons l ls)
  show ?case by (simp only: parse_loop_step Cons.IH) simp
qed

lemma parse_loop_not_started:
  "parse_loop False acc ls = Inr (acc @ map row_record (filter emits (lines_after_header ls)))"
proof (induction ls)
  case Nil
  then show ?case by (simp add: lines_after_header_def)
next
  case (Cons l ls)
  show ?case
  proof (cases "is_header l")
    case True
    then show ?thesis by (simp add: lines_after_header_def parse_loop_started)
  next
    case False
    then show ?thesis using Cons.IH by (simp add: lines_after_header_def)
  qed
qed

lemma parse_top_output_rows:
  "parse_top_output txt =
     Inr (map row_record (filter emits (lines_after_header (split_lines txt))))"
  by (simp add: parse_top_output_def parse_loop_not_started)

subsection \<open>Evaluation of the definitions on given inputs\<close>

lemmas str_eval = is_space_def is_digit_def digit_val_def lower_char_def str_lower_def
  split_lines_def str_split_def str_strip_def str_rstrip_def digit_char_def is_header_def pct_def
  char_of_def bit_Suc_0_iff

lemmas float_eval = pow2_def pow10_def ilog2_def round_even_def binary64_def compute_bitlen
  digitpart_def digits_val_def is_sign_def unsigned_def negative_def not_exp_def not_dot_def
  floatnumber_def py_float_def float_gt_def float_add_def py_sum_def fmt1_def str_of_nat.simps

lemmas parse_eval = parse_top_output_def parse_row_def and_then_def py_nth_def to_float_def

lemmas classify_eval = identify_hotspots_def classify_def final_verdict_def verdict_after_def
  rules_def rule_flat_def rule_cum_def rule_gc_def rule_lock_def rule_json_def rule_sql_def
  rule_reflect_def rule_regex_def rule_syscall_def any_in_def

lemmas table_eval = table_header_def good_row_1_def good_row_2_def short_row_def
  bad_pct_row_def out_of_range_row_def

subsection \<open>Splitting a text that was joined from lines\<close>

lemma split_on_no_sep: "sep \<notin> set a \<Longrightarrow> split_on sep cur a = [cur @ a]"
  by (induction a arbitrary: cur) auto

lemma split_on_sep:
  "sep \<notin> set a \<Longrightarrow> split_on sep cur (a @ sep # b) = (cur @ a) # split_on sep [] b"
  by (induction a arbitrary: cur) auto

lemma split_lines_join:
  "\<forall>x\<in>set ls. CHR 0x0A \<notin> set x \<Longrightarrow> ls \<noteq> [] \<Longrightarrow> split_lines (str_join ''\<newline>'' ls) = ls"
proof (induction "''\<newline>''" ls rule: str_join.induct)
  case 1
  then show ?case by simp
next
  case (2 x)
  then show ?case by (simp add: split_lines_def split_on_no_sep)
next
  case (3 x y ys)
  then show ?case by (simp add: split_lines_def split_on_sep)
qed

lemma lines_after_header_drop:
  "\<not> is_header l \<Longrightarrow> \<not> emits l \<Longrightarrow>
   filter emits (lines_after_header (before @ l # after)) =
   filter emits (lines_after_header (before @ after))"
proof (induction before)
  case Nil
  then show ?case
    by (cases after) (auto simp add: lines_after_header_def drop_Suc dest: set_dropWhileD)
next
  case (Cons a before)
  then show ?case by (auto simp add: lines_after_header_def)
qed

lemma parse_joined_lines:
  "\<forall>x\<in>set ls. CHR 0x0A \<notin> set x \<Longrightarrow>
   parse_top_output (str_join ''\<newline>'' ls) =
     Inr (map row_record (filter emits (lines_after_header ls)))"
proof (cases "ls = []")
  case True
  then show ?thesis
    by (simp add: parse_top_output_rows split_lines_def lines_after_header_def)
next
  case False
  assume "\<forall>x\<in>set ls. CHR 0x0A \<notin> set x"
  then show ?thesis using False by (simp add: parse_top_output_rows split_lines_join)
qed

lemma good_rows_parsed:
  "parse_top_output (str_join ''\<newline>'' ([table_header, good_row_1] @ [good_row_2])) =
     Inr [\<lparr>flat_time = ''10ms'', flat_pct = Finite 2, cum_time = ''10ms'', cum_pct = Finite 3,
           name = ''main.run''\<rparr>,
          \<lparr>flat_time = ''20ms'', flat_pct = Finite 7, cum_time = ''30ms'', cum_pct = Finite 8,
           name = ''sync.(*Mutex).Lock''\<rparr>]"
  by (simp add: table_eval str_eval float_eval parse_eval Let_def)


subsection \<open>The number of records\<close>




subsection \<open>Malformed lines\<close>

text \<open>
  C6. For every input text the parser returns a sequence of records and raises nothing.
  A line that is not a header line and that has fewer than six tokens, or a percentage that
  does not parse, is discarded as a whole: the text with that line yields the same records
  as the text without it, wherever the line stands. (The classifier is a total function of
  the records: none of its steps can raise.)
\<close>

theorem malformed_line_discarded:
  "(\<exists>fs. parse_top_output txt = Inr fs) \<and>
   ((\<forall>x\<in>set (before @ l # after). CHR 0x0A \<notin> set x) \<and> \<not> is_header l \<and>
    (length (str_split l) < 6 \<or> py_float (pct (str_split l ! 1)) = None \<or>
     py_float (pct (str_split l ! 4)) = None) \<longrightarrow>
    parse_top_output (str_join ''\<newline>'' (before @ l # after)) =
    parse_top_output (str_join ''\<newline>'' (before @ after)))"
proof (intro conjI impI)
  show "\<exists>fs. parse_top_output txt = Inr fs" by (simp add: parse_top_output_rows)
next
  assume a: "(\<forall>x\<in>set (before @ l # after). CHR 0x0A \<notin> set x) \<and> \<not> is_header l \<and>
    (length (str_split l) < 6 \<or> py_float (pct (str_split l ! 1)) = None \<or>
     py_float (pct (str_split l ! 4)) = None)"
  then have ne: "\<not> emits l" by (auto simp add: emits_def well_formed_row_def Let_def)
  have n1: "\<forall>x\<in>set (before @ l # after). CHR 0x0A \<notin> set x" using a by blast
  then have n2: "\<forall>x\<in>set (before @ after). CHR 0x0A \<notin> set x" by auto
  have nh: "\<not> is_header l" using a by blast
  have eq: "filter emits (lines_after_header (before @ l # after)) =
            filter emits (lines_after_header (before @ after))"
    using nh ne by (rule lines_after_header_drop)
  show "parse_top_output (str_join ''\<newline>'' (before @ l # after)) =
        parse_top_output (str_join ''\<newline>'' (before @ after))"
    by (simp only: parse_joined_lines [OF n1] parse_joined_lines [OF n2] eq)
qed

theorem malformed_line_discarded_witness:
  "list_all (\<lambda>x. CHR 0x0A \<notin> set x) ([table_header, good_row_1] @ short_row # [good_row_2]) \<and>
   \<not> is_header short_row \<and> length (str_split short_row) < 6 \<and>
   parse_top_output (str_join ''\<newline>'' ([table_header, good_row_1] @ short_row # [good_row_2])) =
     Inr [\<lparr>flat_time = ''10ms'', flat_pct = Finite 2, cum_time = ''10ms'', cum_pct = Finite 3,
           name = ''main.run''\<rparr>,
          \<lparr>flat_time = ''20ms'', flat_pct = Finite 7, cum_time = ''30ms'', cum_pct = Finite 8,
           name = ''sync.(*Mutex).Lock''\<rparr>]"
proof -
  have h: "(\<forall>x\<in>set ([table_header, good_row_1] @ short_row # [good_row_2]). CHR 0x0A \<notin> set x) \<and>
    \<not> is_header short_row \<and> length (str_split short_row) < 6"
    by (simp add: table_eval str_eval)
  then have "parse_top_output (str_join ''\<newline>'' ([table_header, good_row_1] @ short_row # [good_row_2])) =
     parse_top_output (str_join ''\<newline>'' ([table_header, good_row_1] @ [good_row_2]))"
    using malformed_line_discarded [of "[]" "[table_header, good_row_1]" short_row "[good_row_2]"]
    by blast
  then show ?thesis
    using h by (simp only: good_rows_parsed list_all_iff) simp
qed

subsection \<open>Scenario B\<close>

lemmas recommend_eval = generate_recommendations_def group_issues_def file_issue_def
  empty_groups_def total_flat_def gc_entry_def lock_entry_def json_entry_def sql_entry_def
  reflect_entry_def

text \<open>
  C5. The single data line \<^verbatim>\<open>50ms 15.0% 15.0% 80ms 25.0% runtime.gcBgMarkWorker\<close> after a
  header gives exactly one record, with the percentages 15.0 and 25.0; the classifier gives
  one finding of priority HIGH whose issues are, in this order, the direct CPU consumption
  (15.0%), the hot call path (25.0%) and the garbage collection overhead; the synthesizer
  gives one recommendation, Memory Management, of priority HIGH, the sum 15.0 being
  greater than 10.
\<close>

theorem scenario_b_pipeline:
  "parse_top_output scenario_b = Inr [gc_worker] \<and>
   identify_hotspots [gc_worker] = [gc_finding] \<and>
   map (\<lambda>r. (rec_category r, rec_priority r, rec_issue r)) (generate_recommendations [gc_finding]) =
     [(''Memory Management'', ''HIGH'', ''GC overhead: 15.0% CPU'')] \<and>
   total_flat [gc_finding] = Finite 15 \<and> float_gt (total_flat [gc_finding]) 10"
proof (intro conjI)
  show "parse_top_output scenario_b = Inr [gc_worker]"
    by (simp add: scenario_b_def gc_worker_def table_eval str_eval float_eval parse_eval Let_def)
  show "identify_hotspots [gc_worker] = [gc_finding]"
    by (simp add: gc_worker_def gc_finding_def classify_eval str_eval float_eval Let_def)
  show "map (\<lambda>r. (rec_category r, rec_priority r, rec_issue r))
          (generate_recommendations [gc_finding]) =
        [(''Memory Management'', ''HIGH'', ''GC overhead: 15.0% CPU'')]"
    by (simp add: gc_finding_def recommend_eval str_eval float_eval Let_def)
  show t: "total_flat [gc_finding] = Finite 15"
    by (simp add: gc_finding_def recommend_eval float_eval Let_def)
  show "float_gt (total_flat [gc_finding]) 10"
    by (simp add: t float_gt_def)
qed

subsection \<open>The classifier, record by record\<close>

lemma foldl_append_concat: "foldl (\<lambda>acc x. acc @ g x) a xs = a @ concat (map g xs)"
  by (induction xs arbitrary: a) auto

lemma identify_hotspots_concat: "identify_hotspots fs = concat (map classify fs)"
  by (simp add: identify_hotspots_def foldl_append_concat)

lemma classify_cases: "classify f = (if triggers f then [finding_of f] else [])"
  by (simp add: classify_def triggers_def finding_of_def split: prod.splits)

lemma identify_hotspots_filter: "identify_hotspots fs = map finding_of (filter triggers fs)"
  by (induction fs) (simp_all add: identify_hotspots_concat classify_cases)

lemma foldl_rules_invariant:
  "\<forall>r\<in>set rs. \<forall>v. P (fst v) \<longrightarrow> P (fst (r f v)) \<Longrightarrow> P (fst v0) \<Longrightarrow>
   P (fst (foldl (\<lambda>v r. r f v) v0 rs))"
proof (induction rs arbitrary: v0)
  case Nil
  then show ?case by simp
next
  case (Cons r rs)
  have step: "P (fst (r f v0))" using Cons.prems by (cases v0) auto
  have rest: "\<forall>r\<in>set rs. \<forall>v. P (fst v) \<longrightarrow> P (fst (r f v))" using Cons.prems(1) by simp
  show ?case using Cons.IH [OF rest step] by simp
qed

lemma rule_flat_valid: "valid_priority (fst v) \<Longrightarrow> valid_priority (fst (rule_flat f v))"
  by (cases v) (simp add: rule_flat_def valid_priority_def)

lemma rule_cum_valid: "valid_priority (fst v) \<Longrightarrow> valid_priority (fst (rule_cum f v))"
  by (cases v) (simp add: rule_cum_def valid_priority_def)

lemma rule_gc_valid: "valid_priority (fst v) \<Longrightarrow> valid_priority (fst (rule_gc f v))"
  by (cases v) (simp add: rule_gc_def valid_priority_def)

lemma rule_lock_valid: "valid_priority (fst v) \<Longrightarrow> valid_priority (fst (rule_lock f v))"
  by (cases v) (simp add: rule_lock_def valid_priority_def)

lemma rule_json_valid: "valid_priority (fst v) \<Longrightarrow> valid_priority (fst (rule_json f v))"
  by (cases v) (simp add: rule_json_def valid_priority_def)

lemma rule_sql_valid: "valid_priority (fst v) \<Longrightarrow> valid_priority (fst (rule_sql f v))"
  by (cases v) (simp add: rule_sql_def valid_priority_def)

lemma rule_reflect_valid: "valid_priority (fst v) \<Longrightarrow> valid_priority (fst (rule_reflect f v))"
  by (cases v) (simp add: rule_reflect_def valid_priority_def)

lemma rule_regex_valid: "valid_priority (fst v) \<Longrightarrow> valid_priority (fst (rule_regex f v))"
  by (cases v) (simp add: rule_regex_def)

lemma rule_syscall_valid: "valid_priority (fst v) \<Longrightarrow> valid_priority (fst (rule_syscall f v))"
  by (cases v) (simp add: rule_syscall_def)

lemma rules_keep_valid:
  "\<forall>r\<in>set rules. \<forall>v. valid_priority (fst v) \<longrightarrow> valid_priority (fst (r f v))"
  by (simp add: rules_def rule_flat_valid rule_cum_valid rule_gc_valid rule_lock_valid
      rule_json_valid rule_sql_valid rule_reflect_valid rule_regex_valid rule_syscall_valid)

lemma final_verdict_valid: "valid_priority (fst (final_verdict f))"
  unfolding final_verdict_def
  by (rule foldl_rules_invariant [OF rules_keep_valid]) (simp add: valid_priority_def)

lemma findings_valid:
  "h \<in> set (identify_hotspots fs) \<Longrightarrow> valid_priority (hs_priority h) \<and> hs_issues h \<noteq> []"
  by (auto simp add: identify_hotspots_filter finding_of_def final_verdict_valid triggers_def)

subsection \<open>Lookups of the renderer\<close>

lemma priority_emoji_valid: "valid_priority p \<Longrightarrow> priority_emoji p = Inr (icon_of p)"
  by (auto simp add: valid_priority_def priority_emoji_def icon_of_def)

lemma hotspot_loop_entries:
  "\<forall>h\<in>set hs. valid_priority (hs_priority h) \<Longrightarrow>
   hotspot_loop i out hs =
     Inr (out @ concat (map (\<lambda>(j, h). hotspot_entry j (icon_of (hs_priority h)) h) (enumerate i hs)))"
  by (induction hs arbitrary: i out) (simp_all add: priority_emoji_valid)

lemma recommendation_loop_entries:
  "\<forall>r\<in>set rs. valid_priority (rec_priority r) \<Longrightarrow>
   recommendation_loop i out rs =
     Inr (out @ concat (map (\<lambda>(j, r). recommendation_entry j (icon_of (rec_priority r)) r) (enumerate i rs)))"
  by (induction rs arbitrary: i out) (simp_all add: priority_emoji_valid)

lemma summary_loop_ok:
  "\<forall>h\<in>set hs. valid_priority (hs_priority h) \<and> hs_issues h \<noteq> [] \<Longrightarrow>
   \<exists>s. summary_loop i out hs = Inr s"
  by (induction hs arbitrary: i out) (auto simp add: priority_emoji_valid py_nth_def)

lemma entries_valid:
  "valid_priority (rec_priority (gc_entry m))" "valid_priority (rec_priority (lock_entry m))"
  "valid_priority (rec_priority (json_entry m))" "valid_priority (rec_priority (sql_entry m))"
  "valid_priority (rec_priority (reflect_entry m))"
  by (simp_all add: valid_priority_def gc_entry_def lock_entry_def json_entry_def sql_entry_def
      reflect_entry_def Let_def)

lemma recommendations_valid:
  "r \<in> set (generate_recommendations hs) \<Longrightarrow> valid_priority (rec_priority r)"
  unfolding generate_recommendations_def Let_def
  by (auto simp add: entries_valid split: if_splits)

lemma gc_worker_finding: "identify_hotspots [gc_worker] = [gc_finding]"
  by (simp add: gc_worker_def gc_finding_def classify_eval str_eval float_eval Let_def)

lemma hotspots_section_valid:
  "\<forall>h\<in>set hs. valid_priority (hs_priority h) \<Longrightarrow>
   hotspots_section hs =
     Inr (''## '' @ icon_hotspots @ '' Top Performance Hotspots\<newline>\<newline>'' @
          (if hs = [] then ''No hotspots detected.\<newline>\<newline>'' else hotspot_listing hs))"
proof -
  assume v: "\<forall>h\<in>set hs. valid_priority (hs_priority h)"
  then have "\<forall>h\<in>set (take 10 hs). valid_priority (hs_priority h)"
    by (auto dest: in_set_takeD)
  then show ?thesis
    by (simp add: hotspots_section_def hotspot_loop_entries hotspot_listing_def Let_def)
qed

lemma recommendations_section_valid:
  "\<forall>r\<in>set rs. valid_priority (rec_priority r) \<Longrightarrow> \<exists>t. recommendations_section rs = Inr t"
  by (simp add: recommendations_section_def recommendation_loop_entries Let_def)

lemma quick_summary_valid:
  "\<forall>h\<in>set hs. valid_priority (hs_priority h) \<and> hs_issues h \<noteq> [] \<Longrightarrow>
   \<exists>s. quick_summary hs = Inr s"
proof -
  assume v: "\<forall>h\<in>set hs. valid_priority (hs_priority h) \<and> hs_issues h \<noteq> []"
  then have "\<forall>h\<in>set (take 3 hs). valid_priority (hs_priority h) \<and> hs_issues h \<noteq> []"
    by (auto dest: in_set_takeD)
  from summary_loop_ok [OF this]
  obtain s where "summary_loop 1 [icon_hotspots @ '' Top 3 Hotspots:''] (take 3 hs) = Inr s"
    by blast
  then show ?thesis by (simp add: quick_summary_def and_then_def)
qed

lemma generate_report_valid:
  "\<forall>h\<in>set (hotspots self). valid_priority (hs_priority h) \<Longrightarrow>
   \<forall>r\<in>set (recommendations self). valid_priority (rec_priority r) \<Longrightarrow>
   \<exists>t. generate_report self now = Inr t"
proof -
  assume h: "\<forall>h\<in>set (hotspots self). valid_priority (hs_priority h)"
    and r: "\<forall>r\<in>set (recommendations self). valid_priority (rec_priority r)"
  obtain t where t: "recommendations_section (recommendations self) = Inr t"
    using recommendations_section_valid [OF r] by blast
  show ?thesis
    by (simp add: generate_report_def and_then_def hotspots_section_valid [OF h] t)
qed

text \<open>
  C10. Every finding that the classifier emits has one of the priorities LOW, MEDIUM and
  HIGH and at least one issue. So the lookup of the glyph for its priority and the access
  to its first issue succeed, the report is written for any output of the classifier
  (together with the recommendations made from it), and so is the quick summary.
\<close>

theorem classifier_output_renders:
  "(\<forall>h\<in>set (identify_hotspots fs).
      (hs_priority h = ''LOW'' \<or> hs_priority h = ''MEDIUM'' \<or> hs_priority h = ''HIGH'') \<and>
      hs_issues h \<noteq> [] \<and>
      (\<exists>emoji. priority_emoji (hs_priority h) = Inr emoji) \<and>
      (\<exists>issue. py_nth (hs_issues h) 0 = Inr issue)) \<and>
   (\<exists>report. generate_report
      (self\<lparr>hotspots := identify_hotspots fs,
            recommendations := generate_recommendations (identify_hotspots fs)\<rparr>) now = Inr report) \<and>
   (\<exists>summary. quick_summary (identify_hotspots fs) = Inr summary)"
proof (intro conjI ballI)
  fix h assume h: "h \<in> set (identify_hotspots fs)"
  from findings_valid [OF h]
  show "hs_priority h = ''LOW'' \<or> hs_priority h = ''MEDIUM'' \<or> hs_priority h = ''HIGH''"
    and "hs_issues h \<noteq> []"
    and "\<exists>emoji. priority_emoji (hs_priority h) = Inr emoji"
    and "\<exists>issue. py_nth (hs_issues h) 0 = Inr issue"
    by (auto simp add: valid_priority_def priority_emoji_def py_nth_def)
next
  show "\<exists>report. generate_report
      (self\<lparr>hotspots := identify_hotspots fs,
            recommendations := generate_recommendations (identify_hotspots fs)\<rparr>) now = Inr report"
    by (rule generate_report_valid) (simp_all add: findings_valid recommendations_valid)
next
  show "\<exists>summary. quick_summary (identify_hotspots fs) = Inr summary"
    by (rule quick_summary_valid) (simp add: findings_valid)
qed

theorem classifier_output_renders_witness:
  "hs_priority gc_finding = ''HIGH'' \<and> hs_issues gc_finding \<noteq> [] \<and>
   priority_emoji (hs_priority gc_finding) = Inr icon_high \<and>
   py_nth (hs_issues gc_finding) 0 = Inr ''Consumes 15.0% CPU directly'' \<and>
   (\<exists>report. generate_report
      (example_analyzer\<lparr>hotspots := [gc_finding],
            recommendations := generate_recommendations [gc_finding]\<rparr>) example_time = Inr report) \<and>
   (\<exists>summary. quick_summary [gc_finding] = Inr summary)"
  using classifier_output_renders [of "[gc_worker]" example_analyzer example_time]
  by (simp add: gc_worker_finding) (simp add: gc_finding_def priority_emoji_def py_nth_def)

subsection \<open>Order of the findings\<close>




subsection \<open>No range check on the percentages\<close>






text \<open>The row with \<^verbatim>\<open>-5.0%\<close> and \<^verbatim>\<open>250%\<close>, followed through the three stages.\<close>

lemma out_of_range_flows:
  "parse_top_output out_of_range_table = Inr [out_of_range_stat] \<and>
   map (\<lambda>h. (hs_flat_pct h, hs_cum_pct h, hs_priority h, hs_issues h)) (identify_hotspots [out_of_range_stat]) =
     [(Finite (- 5), Finite 250, ''MEDIUM'',
       [''Call tree consumes 250.0% total CPU'', ''Garbage collection overhead''])] \<and>
   map (\<lambda>r. (rec_category r, rec_priority r, rec_issue r))
     (generate_recommendations (identify_hotspots [out_of_range_stat])) =
     [(''Memory Management'', ''MEDIUM'', ''GC overhead: -5.0% CPU'')]"
  by (simp add: out_of_range_table_def out_of_range_stat_def table_eval str_eval float_eval
      parse_eval classify_eval recommend_eval Let_def)

subsection \<open>Input without a header\<close>

lemma str_contains_prefix: "prefix sub s \<Longrightarrow> str_contains sub s"
  by (cases s) auto

lemma str_contains_appendR: "str_contains sub b \<Longrightarrow> str_contains sub (a @ b)"
  by (induction a) auto

lemma str_contains_appendL: "str_contains sub a \<Longrightarrow> str_contains sub (a @ b)"
proof (induction a)
  case Nil
  then show ?case by (simp add: str_contains_prefix)
next
  case (Cons c a)
  show ?case
  proof (cases "prefix sub (c # a)")
    case True
    then have "prefix sub ((c # a) @ b)" by (rule prefix_prefix)
    then show ?thesis by simp
  next
    case False
    then have "str_contains sub a" using Cons.prems by simp
    then have "str_contains sub (a @ b)" by (rule Cons.IH)
    then show ?thesis by simp
  qed
qed

lemma str_contains_mid: "str_contains sub m \<Longrightarrow> str_contains sub (a @ m @ b)"
  by (intro str_contains_appendR str_contains_appendL)

lemma no_header_no_rows:
  "\<forall>l\<in>set ls. \<not> is_header l \<Longrightarrow> lines_after_header ls = []"
proof -
  assume "\<forall>l\<in>set ls. \<not> is_header l"
  then have "dropWhile (\<lambda>l. \<not> is_header l) ls = []" by simp
  then show ?thesis by (simp only: lines_after_header_def drop_Nil)
qed

text \<open>
  C7. For a text without a header line, the empty text among them, the parser returns the
  empty sequence and no error; the classifier makes no finding of no record and the
  synthesizer no recommendation of no finding; and the report for these two empty
  sequences is written, with the statement that no significant hotspots were detected in
  its summary, the statement that no hotspots were detected in its hotspot section and the
  statement that the profile looks healthy in its recommendations section.
\<close>

theorem no_header_empty_report:
  assumes "\<forall>l\<in>set (split_lines txt). \<not> is_header l"
  shows "parse_top_output txt = Inr [] \<and> identify_hotspots [] = [] \<and>
     generate_recommendations [] = [] \<and>
     (\<exists>hot recs.
        hotspots_section [] = Inr hot \<and> recommendations_section [] = Inr recs \<and>
        generate_report (self\<lparr>hotspots := [], recommendations := []\<rparr>) now =
          Inr (report_header self now @ summary_section [] @ hot @ recs @ next_steps self @
               report_footer) \<and>
        str_contains ''No significant hotspots detected. Performance appears optimal.''
          (summary_section []) \<and>
        str_contains ''No hotspots detected.'' hot \<and>
        str_contains ''No specific recommendations. Profile looks healthy!'' recs)"
proof (intro conjI exI)
  show "parse_top_output txt = Inr []"
    using assms by (simp add: parse_top_output_rows no_header_no_rows)
  show "identify_hotspots [] = []" by (simp add: identify_hotspots_def)
  show "generate_recommendations [] = []"
    by (simp add: generate_recommendations_def group_issues_def empty_groups_def)
  show "hotspots_section [] =
      Inr (''## '' @ icon_hotspots @ '' Top Performance Hotspots\<newline>\<newline>'' @ ''No hotspots detected.\<newline>\<newline>'')"
    by (simp add: hotspots_section_def)
  show "recommendations_section [] =
      Inr (''## '' @ icon_recommendations @ '' Optimization Recommendations\<newline>\<newline>'' @
           ''No specific recommendations. Profile looks healthy!\<newline>\<newline>'')"
    by (simp add: recommendations_section_def)
  show "generate_report (self\<lparr>hotspots := [], recommendations := []\<rparr>) now =
          Inr (report_header self now @ summary_section [] @
               (''## '' @ icon_hotspots @ '' Top Performance Hotspots\<newline>\<newline>'' @ ''No hotspots detected.\<newline>\<newline>'') @
               (''## '' @ icon_recommendations @ '' Optimization Recommendations\<newline>\<newline>'' @
                ''No specific recommendations. Profile looks healthy!\<newline>\<newline>'') @
               next_steps self @ report_footer)"
    by (simp add: generate_report_def and_then_def hotspots_section_def recommendations_section_def
        report_header_def next_steps_def)
  show "str_contains ''No significant hotspots detected. Performance appears optimal.''
          (summary_section [])"
    unfolding summary_section_def list.case
    by (intro str_contains_appendR str_contains_prefix) simp
  show "str_contains ''No hotspots detected.''
      (''## '' @ icon_hotspots @ '' Top Performance Hotspots\<newline>\<newline>'' @ ''No hotspots detected.\<newline>\<newline>'')"
    by (intro str_contains_appendR str_contains_prefix) simp
  show "str_contains ''No specific recommendations. Profile looks healthy!''
      (''## '' @ icon_recommendations @ '' Optimization Recommendations\<newline>\<newline>'' @
           ''No specific recommendations. Profile looks healthy!\<newline>\<newline>'')"
    by (intro str_contains_appendR str_contains_prefix) simp
qed

theorem no_header_empty_report_witness:
  "list_all (\<lambda>l. \<not> is_header l) (split_lines []) \<and>
   parse_top_output [] = Inr [] \<and> identify_hotspots [] = [] \<and>
   generate_recommendations [] = [] \<and>
   (\<exists>hot recs.
      hotspots_section [] = Inr hot \<and> recommendations_section [] = Inr recs \<and>
      generate_report (example_analyzer\<lparr>hotspots := [], recommendations := []\<rparr>) example_time =
        Inr (report_header example_analyzer example_time @ summary_section [] @ hot @ recs @
             next_steps example_analyzer @ report_footer) \<and>
      str_contains ''No significant hotspots detected. Performance appears optimal.''
        (summary_section []) \<and>
      str_contains ''No hotspots detected.'' hot \<and>
      str_contains ''No specific recommendations. Profile looks healthy!'' recs)"
proof -
  have h: "\<forall>l\<in>set (split_lines []). \<not> is_header l"
    by (simp add: split_lines_def is_header_def)
  show ?thesis
    using no_header_empty_report [OF h, of example_analyzer example_time] h
    unfolding list_all_iff by blast
qed

text \<open>The driver reaches these components for every text but the empty one, for which it
  returns \<^verbatim>\<open>None\<close> before parsing.\<close>

lemma analyze_empty_output: "analyze self [] now = Inr None"
  by (simp add: analyze_def)

lemma analyze_no_header:
  assumes "txt \<noteq> []" and "\<forall>l\<in>set (split_lines txt). \<not> is_header l"
  shows "\<exists>report. analyze self txt now = Inr (Some (report, [])) \<and>
     generate_report (self\<lparr>hotspots := [], recommendations := []\<rparr>) now = Inr report"
proof -
  have p: "parse_top_output txt = Inr []"
    using assms(2) by (simp add: parse_top_output_rows no_header_no_rows)
  have g: "\<exists>report. generate_report (self\<lparr>hotspots := [], recommendations := []\<rparr>) now = Inr report"
    by (rule generate_report_valid) simp_all
  then obtain report where r: "generate_report (self\<lparr>hotspots := [], recommendations := []\<rparr>) now = Inr report"
    by blast
  have i: "identify_hotspots [] = []" by (simp add: identify_hotspots_def)
  have c: "generate_recommendations [] = []"
    by (simp add: generate_recommendations_def group_issues_def empty_groups_def)
  show ?thesis
    using assms(1) by (simp add: analyze_def p and_then_def i c r quick_summary_def Let_def)
qed

subsection \<open>A key word next to a formatted number\<close>






subsection \<open>The issue texts and their keys\<close>




lemma str_of_nat_nonempty: "str_of_nat n \<noteq> []"
  by (subst str_of_nat.simps) simp













subsection \<open>The contributions of the findings of the classifier\<close>







subsection \<open>The recommendations, category by category\<close>










subsection \<open>The report and the clock\<close>

lemmas report_eval = generate_report_def and_then_def hotspots_section_def
  recommendations_section_def report_header_def strftime_def zero_pad_def summary_section_def
  next_steps_def report_footer_def example_analyzer_def example_time_def later_time_def

lemma generate_report_shape:
  "generate_report self now = Inr r \<Longrightarrow>
   \<exists>rest. r = (''# Flamegraph Analysis Report\<newline>\<newline>'' @
                ''**Profile:** `'' @ profile_name self @ ''`\<newline>'' @
                ''**Generated:** '') @ strftime now @ rest \<and>
          (\<forall>t r'. generate_report self t = Inr r' \<longrightarrow>
             r' = (''# Flamegraph Analysis Report\<newline>\<newline>'' @
                ''**Profile:** `'' @ profile_name self @ ''`\<newline>'' @
                ''**Generated:** '') @ strftime t @ rest)"
  by (auto simp add: generate_report_def and_then_def report_header_def split: sum.splits)

text \<open>
  C2, as the claim states it: the text of the report depends on the two sequences and on
  nothing else, such as the current time. The report carries the line
  \<^verbatim>\<open>**Generated:**\<close> with the reading of the clock, so two renderings of the same (here
  empty) sequences for the same profile, one second apart, differ.
\<close>

theorem report_changes_with_clock:
  "generate_report example_analyzer example_time \<noteq> generate_report example_analyzer later_time"
  by (simp add: report_eval str_of_nat.simps str_eval)

text \<open>
  C2, amended: the text of the report is a function of the hotspot sequence, the
  recommendation sequence, the path and the name of the profile, and the reading of the
  clock as \<^verbatim>\<open>%Y-%m-%d %H:%M:%S\<close> prints it. Two renderings from the same state of
  the analyzer are byte-identical exactly when these time stamps are equal.
\<close>

theorem report_varies_with_clock:
  assumes "generate_report self t1 = Inr r1" and "generate_report self t2 = Inr r2"
  shows "r1 = r2 \<longleftrightarrow> strftime t1 = strftime t2"
proof -
  from generate_report_shape [OF assms(1)] obtain rest where
    r1: "r1 = (''# Flamegraph Analysis Report\<newline>\<newline>'' @
                ''**Profile:** `'' @ profile_name self @ ''`\<newline>'' @
                ''**Generated:** '') @ strftime t1 @ rest"
    and all: "\<forall>t r'. generate_report self t = Inr r' \<longrightarrow>
             r' = (''# Flamegraph Analysis Report\<newline>\<newline>'' @
                ''**Profile:** `'' @ profile_name self @ ''`\<newline>'' @
                ''**Generated:** '') @ strftime t @ rest"
    by blast
  from all assms(2) have
    r2: "r2 = (''# Flamegraph Analysis Report\<newline>\<newline>'' @
                ''**Profile:** `'' @ profile_name self @ ''`\<newline>'' @
                ''**Generated:** '') @ strftime t2 @ rest"
    by blast
  show ?thesis unfolding r1 r2 by (simp only: same_append_eq append_same_eq)
qed

theorem report_varies_with_clock_witness:
  "\<exists>r1 r2. generate_report example_analyzer example_time = Inr r1 \<and>
     generate_report example_analyzer later_time = Inr r2 \<and>
     r1 \<noteq> r2 \<and>
     strftime example_time = ''2026-01-02 03:04:05'' \<and> strftime later_time = ''2026-01-02 03:04:06''"
proof -
  obtain r1 where r1: "generate_report example_analyzer example_time = Inr r1"
    using generate_report_valid [of example_analyzer example_time]
    by (auto simp add: example_analyzer_def)
  obtain r2 where r2: "generate_report example_analyzer later_time = Inr r2"
    using generate_report_valid [of example_analyzer later_time]
    by (auto simp add: example_analyzer_def)
  have s: "strftime example_time = ''2026-01-02 03:04:05'' \<and> strftime later_time = ''2026-01-02 03:04:06''"
    by (simp add: strftime_def zero_pad_def example_time_def later_time_def str_of_nat.simps str_eval)
  have "strftime example_time \<noteq> strftime later_time" by (simp add: s)
  then have "r1 \<noteq> r2" using report_varies_with_clock [OF r1 r2] by simp
  then show ?thesis using r1 r2 s by blast
qed

end
